theory Spec2Isabelle
  imports Complex_Main
begin

section \<open>Metrics: the timing loop, the event queue and the UI tick\<close>

text \<open>
  \<^verbatim>\<open>RetroDesktop.event_q\<close> is a \<^verbatim>\<open>queue.Queue()\<close> without a size bound: a FIFO
  that is a list here, oldest entry first. The timing loop puts dictionaries
  \<^verbatim>\<open>{"type": "fps", "value": fps}\<close> into it; a dictionary with these two keys is a
  record of two optional fields (\<open>None\<close> for a missing key). Python floats are
  idealised as reals.
\<close>

record event =
  ev_type :: "string option"
  ev_value :: "real option"

text \<open>\<^verbatim>\<open>put_nowait\<close> on an unbounded queue never raises \<^verbatim>\<open>queue.Full\<close>.\<close>

definition put_nowait :: "event list \<Rightarrow> event \<Rightarrow> event list" where
  "put_nowait q evt = q @ [evt]"

definition publish_fps :: "event list \<Rightarrow> real \<Rightarrow> event list" where
  "publish_fps q fps = put_nowait q \<lparr>ev_type = Some ''fps'', ev_value = Some fps\<rparr>"

text \<open>
  The local variables of \<^verbatim>\<open>RetroDesktop._pygame_loop\<close> and one run of the body of its
  \<^verbatim>\<open>while self.running\<close> loop. \<open>dt_ms\<close> is what \<^verbatim>\<open>clock.tick(target_fps)\<close> returned and
  \<open>now\<close> what \<^verbatim>\<open>time.time()\<close> returned in that iteration.
\<close>

record loop_vars =
  acc_time :: real
  frames :: nat
  last_report :: real
  phase :: real

definition loop_body :: "int \<Rightarrow> real \<Rightarrow> loop_vars \<times> event list \<Rightarrow> loop_vars \<times> event list" where
  "loop_body dt_ms now s =
     (let v = fst s; q = snd s;
          dt = real_of_int dt_ms / 1000;
          v1 = v\<lparr>frames := frames v + 1,
                 acc_time := acc_time v + dt,
                 phase := phase v + dt * 2 * pi\<rparr>
      in if now - last_report v1 \<ge> 0.25
         then (let fps = real (frames v1) / (now - last_report v1)
               in (v1\<lparr>frames := 0, last_report := now\<rparr>, publish_fps q fps))
         else (v1, q))"

text \<open>
  The loop over a finite trace of clock readings; \<open>start\<close> is the \<^verbatim>\<open>time.time()\<close> read
  before the loop. The flag \<^verbatim>\<open>self.running\<close> is read at the head of every iteration.
\<close>

definition loop_init :: "real \<Rightarrow> loop_vars" where
  "loop_init start = \<lparr>acc_time = 0, frames = 0, last_report = start, phase = 0\<rparr>"

fun pygame_loop :: "(bool \<times> int \<times> real) list \<Rightarrow> loop_vars \<times> event list \<Rightarrow> loop_vars \<times> event list" where
  "pygame_loop [] s = s"
| "pygame_loop ((running, dt_ms, now) # ts) s =
     (if running then pygame_loop ts (loop_body dt_ms now s) else s)"

text \<open>
  \<^verbatim>\<open>int(round(x))\<close>: Python rounds a half to the even neighbour. \<^verbatim>\<open>str\<close> of an
  integer is its decimal numeral.
\<close>

definition py_round :: "real \<Rightarrow> int" where
  "py_round x =
     (let f = \<lfloor>x\<rfloor>; d = x - of_int f
      in if d < 1/2 then f else if d > 1/2 then f + 1 else if even f then f else f + 1)"

fun digits :: "nat \<Rightarrow> string" where
  "digits n =
     (if n < 10 then [''0123456789'' ! n]
      else digits (n div 10) @ [''0123456789'' ! (n mod 10)])"

definition py_str_int :: "int \<Rightarrow> string" where
  "py_str_int i = (if i < 0 then CHR ''-'' # digits (nat (- i)) else digits (nat i))"

text \<open>
  The part of \<^verbatim>\<open>RetroDesktop\<close> that the UI tick touches: the queue, \<^verbatim>\<open>fps_value\<close> and the
  text of the taskbar's \<^verbatim>\<open>fps_lbl\<close>. \<^verbatim>\<open>_schedule_ui_tick\<close> takes events with \<^verbatim>\<open>get_nowait\<close>
  until \<^verbatim>\<open>queue.Empty\<close> is raised (the empty list), then writes the label; its
  re-arming through \<^verbatim>\<open>after(16, ...)\<close> is the next call of the function.
\<close>

record ui_state =
  event_q :: "event list"
  fps_value :: real
  fps_lbl :: string

fun drain_events :: "event list \<Rightarrow> real \<Rightarrow> event list \<times> real" where
  "drain_events [] fps = ([], fps)"
| "drain_events (evt # q) fps =
     drain_events q
       (if ev_type evt = Some ''fps''
        then (case ev_value evt of None \<Rightarrow> 0 | Some v \<Rightarrow> v)
        else fps)"

definition set_fps_text :: "real \<Rightarrow> string" where
  "set_fps_text v = ''FPS: '' @ py_str_int (py_round v)"

definition schedule_ui_tick :: "ui_state \<Rightarrow> ui_state" where
  "schedule_ui_tick d =
     (let r = drain_events (event_q d) (fps_value d)
      in d\<lparr>event_q := fst r, fps_value := snd r, fps_lbl := set_fps_text (snd r)\<rparr>)"

text \<open>The milliseconds of a run of ticks, to state what \<^verbatim>\<open>acc_time\<close> holds.\<close>

definition ticks_ms :: "(bool \<times> int \<times> real) list \<Rightarrow> int" where
  "ticks_ms ts = sum_list (map (\<lambda>tick. fst (snd tick)) ts)"


section \<open>The terminal: Python strings, the text widget, keys and commands\<close>

text \<open>
  A Python \<^verbatim>\<open>str\<close> is a list of characters here. The characters are the code points below
  256; \<^verbatim>\<open>str.isspace\<close>, \<^verbatim>\<open>str.lower\<close>, \<^verbatim>\<open>str.strip\<close>, \<^verbatim>\<open>str.split\<close> and \<^verbatim>\<open>str.join\<close> are
  given on them.
\<close>

definition py_isspace :: "char \<Rightarrow> bool" where
  "py_isspace c =
     (c \<in> set [CHR 0x09, CHR 0x0A, CHR 0x0B, CHR 0x0C, CHR 0x0D, CHR 0x1C, CHR 0x1D,
                CHR 0x1E, CHR 0x1F, CHR '' '', CHR 0x85, CHR 0xA0])"

definition py_strip :: "string \<Rightarrow> string" where
  "py_strip s = rev (dropWhile py_isspace (rev (dropWhile py_isspace s)))"

text \<open>\<^verbatim>\<open>s.split()\<close>: the maximal runs of characters that are not whitespace.\<close>

fun split_ws :: "string \<Rightarrow> string \<Rightarrow> string list" where
  "split_ws cur [] = (if cur = [] then [] else [cur])"
| "split_ws cur (c # cs) =
     (if py_isspace c then (if cur = [] then split_ws [] cs else cur # split_ws [] cs)
      else split_ws (cur @ [c]) cs)"

definition py_split :: "string \<Rightarrow> string list" where
  "py_split s = split_ws [] s"

text \<open>\<^verbatim>\<open>s.split(sep)\<close> for a separator of one character: empty pieces are kept.\<close>

fun split_sep :: "char \<Rightarrow> string \<Rightarrow> string \<Rightarrow> string list" where
  "split_sep sep cur [] = [cur]"
| "split_sep sep cur (c # cs) =
     (if c = sep then cur # split_sep sep [] cs else split_sep sep (cur @ [c]) cs)"

definition py_split_sep :: "char \<Rightarrow> string \<Rightarrow> string list" where
  "py_split_sep sep s = split_sep sep [] s"

fun py_join :: "string \<Rightarrow> string list \<Rightarrow> string" where
  "py_join sep [] = []"
| "py_join sep [x] = x"
| "py_join sep (x # y # ys) = x @ sep @ py_join sep (y # ys)"

definition py_lower_char :: "char \<Rightarrow> char" where
  "py_lower_char c =
     (let n = (of_char c :: nat)
      in if (65 \<le> n \<and> n \<le> 90) \<or> (192 \<le> n \<and> n \<le> 222 \<and> n \<noteq> 215)
         then char_of (n + 32) else c)"

definition py_lower :: "string \<Rightarrow> string" where
  "py_lower s = map py_lower_char s"

text \<open>
  \<^verbatim>\<open>TerminalWindow\<close>: the \<^verbatim>\<open>tk.Text\<close> widget and the fields the class adds. \<open>content\<close> is
  the text without the newline that Tk keeps at the very end, \<open>insert_mark\<close> the
  insertion cursor. Tk's indices \<^verbatim>\<open>line.column\<close> are character offsets from \<^verbatim>\<open>1.0\<close> here
  (their order is the same), so \<^verbatim>\<open>end-1c\<close> is the length of \<open>content\<close>. \<open>on_command\<close>
  is a function from the command text to the output text.
\<close>

record terminal_window =
  content :: string
  insert_mark :: nat
  prompt :: string
  input_start_idx :: nat
  lock_input_to_end :: bool
  on_command :: "(string \<Rightarrow> string) option"

definition index_end_1c :: "terminal_window \<Rightarrow> nat" where
  "index_end_1c t = length (content t)"

text \<open>
  The widget's own operations. Text inserted at \<^verbatim>\<open>end\<close> goes before the final newline;
  a mark at the place of an insertion stays to the right of the new text.
  \<^verbatim>\<open>delete(i, j)\<close> removes the characters from \<open>i\<close> up to \<open>j\<close>, never the final newline;
  \<^verbatim>\<open>get(i, j)\<close> reads them.
\<close>

definition text_insert_end :: "terminal_window \<Rightarrow> string \<Rightarrow> terminal_window" where
  "text_insert_end t s =
     t\<lparr>content := content t @ s,
       insert_mark := (if insert_mark t = length (content t)
                       then length (content t) + length s else insert_mark t)\<rparr>"

definition text_delete :: "terminal_window \<Rightarrow> nat \<Rightarrow> nat \<Rightarrow> terminal_window" where
  "text_delete t i j =
     (if i < j
      then t\<lparr>content := take i (content t) @ drop j (content t),
             insert_mark := (if insert_mark t \<le> i then insert_mark t
                             else if j \<le> insert_mark t then insert_mark t - (j - i)
                             else i)\<rparr>
      else t)"

definition text_get :: "terminal_window \<Rightarrow> nat \<Rightarrow> nat \<Rightarrow> string" where
  "text_get t i j = take (j - i) (drop i (content t))"

text \<open>\<^verbatim>\<open>_append_line\<close> and \<^verbatim>\<open>_write_prompt\<close> (\<^verbatim>\<open>see("end")\<close> only scrolls).\<close>

definition append_line :: "terminal_window \<Rightarrow> string \<Rightarrow> terminal_window" where
  "append_line t s = text_insert_end t (s @ [CHR 0x0A])"

definition write_prompt :: "terminal_window \<Rightarrow> terminal_window" where
  "write_prompt t =
     (let t1 = text_insert_end t (prompt t)
      in t1\<lparr>input_start_idx := index_end_1c t1\<rparr>)"

text \<open>
  The statements of \<^verbatim>\<open>TerminalWindow.__init__\<close> that follow \<^verbatim>\<open>super().__init__\<close> (lines
  171 to 190): they build the text widget, write the banner and the first prompt.
  The prompt is \<^verbatim>\<open>C:\<close>, a backslash and \<^verbatim>\<open>webos95> \<close>. The two fields assigned last have
  their values from the start in \<open>t0\<close>; nothing reads them before. These statements
  run only if \<^verbatim>\<open>super().__init__\<close> returns; \<open>terminal_window_init\<close> below says when.
\<close>

definition terminal_body_init :: "(string \<Rightarrow> string) option \<Rightarrow> terminal_window" where
  "terminal_body_init on_cmd =
     (let t0 = \<lparr>content = [], insert_mark = 0, prompt = ''C:'' @ [CHR 0x5C] @ ''webos95> '',
                input_start_idx = 0, lock_input_to_end = True, on_command = on_cmd\<rparr>;
          t1 = append_line t0 ''webOS 95 Terminal'';
          t2 = append_line t1 (''Type '' @ [CHR 0x27] @ ''help'' @ [CHR 0x27] @ '' for commands.'');
          t3 = write_prompt t2
      in t3\<lparr>lock_input_to_end := True, input_start_idx := index_end_1c t3\<rparr>)"

text \<open>
  A key press: \<^verbatim>\<open>event.keysym\<close> and \<^verbatim>\<open>event.char\<close>. \<^verbatim>\<open>_on_key\<close> reads the keysym only; it
  returns \<^verbatim>\<open>"break"\<close> or \<^verbatim>\<open>None\<close>, and no call inside its \<^verbatim>\<open>try\<close> raises on these indices.
\<close>

record key_event =
  keysym :: string
  key_char :: string

definition on_key :: "terminal_window \<Rightarrow> key_event \<Rightarrow> string option \<times> terminal_window" where
  "on_key t event =
     (let insert_idx = insert_mark t;
          t1 = (if lock_input_to_end t \<and> insert_idx < input_start_idx t
                then t\<lparr>insert_mark := index_end_1c t\<rparr> else t)
      in if keysym event = ''BackSpace'' \<and> insert_mark t1 \<le> input_start_idx t1
         then (Some ''break'', t1)
         else (None, t1))"

text \<open>
  The strings of \<^verbatim>\<open>_default_commands\<close>. The dash of the ``about'' text is U+2014, outside
  the characters here; one character (\<open>0x97\<close>) stands for it, so that lengths agree.
\<close>

definition help_text :: string where
  "help_text =
     ''Commands:\<newline>'' @
     ''  help          Show this help\<newline>'' @
     ''  echo [text]   Echo text\<newline>'' @
     ''  time          Show current time\<newline>'' @
     ''  clear         Clear screen\<newline>'' @
     ''  about         About this OS\<newline>'' @
     ''  vibes         Show vibe status\<newline>''"

definition about_text :: string where
  "about_text =
     ''webOS 95 Vibes '' @ [CHR 0x97] @ '' single shot, Tkinter + Pygame headless loop.\<newline>'' @
     ''Everything 100% in one file. FPS vibes on.''"

text \<open>
  \<^verbatim>\<open>_default_commands\<close> returns the output and, for \<^verbatim>\<open>clear\<close>, empties the widget with
  \<^verbatim>\<open>delete("1.0", "end")\<close>. \<open>tm\<close> is what \<^verbatim>\<open>time.strftime\<close> returns at the call.
\<close>

definition default_commands :: "terminal_window \<Rightarrow> string \<Rightarrow> string \<Rightarrow> string \<times> terminal_window" where
  "default_commands t cmd tm =
     (case py_split cmd of
        [] \<Rightarrow> ([], t)
      | p # args \<Rightarrow>
          (let name = py_lower p
           in if name = ''help'' \<or> name = ''?'' then (help_text, t)
              else if name = ''echo'' then (py_join '' '' args, t)
              else if name = ''time'' then (tm, t)
              else if name = ''clear'' then ([], text_delete t 0 (length (content t) + 1))
              else if name = ''about'' then (about_text, t)
              else if name = ''vibes'' then (''Vibes = ON. 600 fps spirit mode.'', t)
              else (''Unknown command: '' @ name, t)))"

definition handle_command :: "terminal_window \<Rightarrow> string \<Rightarrow> string \<Rightarrow> terminal_window" where
  "handle_command t cmd tm =
     (let r = (case on_command t of
                 Some f \<Rightarrow> (f cmd, t)
               | None \<Rightarrow> default_commands t cmd tm)
      in if fst r \<noteq> [] then foldl append_line (snd r) (py_split_sep (CHR 0x0A) (fst r))
         else snd r)"

definition on_return :: "terminal_window \<Rightarrow> string \<Rightarrow> terminal_window" where
  "on_return t tm =
     (let line = text_get t (input_start_idx t) (index_end_1c t);
          cmd = py_strip line;
          t1 = append_line t [];
          t2 = handle_command t1 cmd tm
      in write_prompt t2)"

text \<open>
  The widget has two bindings, \<^verbatim>\<open><Return>\<close> and \<^verbatim>\<open><Key>\<close>, and Tk runs the more specific one
  that matches: \<^verbatim>\<open>_on_return\<close> for the Return key (it returns \<^verbatim>\<open>"break"\<close>, so Tk inserts
  no newline), \<^verbatim>\<open>_on_key\<close> for every other key. Unless the callback returned
  \<^verbatim>\<open>"break"\<close>, Tk then runs its own binding of the class \<^verbatim>\<open>Text\<close> for the key. Those
  bindings belong to Tk, not to the repository: \<open>tk_action\<close> is what the one that
  matches the event does to the widget.
\<close>

definition key_press ::
  "(terminal_window \<Rightarrow> terminal_window) \<Rightarrow> terminal_window \<Rightarrow> string \<Rightarrow> key_event \<Rightarrow> terminal_window" where
  "key_press tk_action t tm event =
     (if keysym event = ''Return'' then on_return t tm
      else (case on_key t event of
              (Some r, t1) \<Rightarrow> (if r = ''break'' then t1 else tk_action t1)
            | (None, t1) \<Rightarrow> tk_action t1))"

text \<open>
  Tk's binding of the class \<^verbatim>\<open>Text\<close> for Control-h (\<^verbatim>\<open>text.tcl\<close>: if the cursor is not at
  \<^verbatim>\<open>1.0\<close>, \<^verbatim>\<open>delete insert-1c\<close>). The event of that key has the keysym \<^verbatim>\<open>h\<close> and the
  character 8.
\<close>

definition tk_control_h :: "terminal_window \<Rightarrow> terminal_window" where
  "tk_control_h t =
     (if insert_mark t \<noteq> 0 then text_delete t (insert_mark t - 1) (insert_mark t) else t)"



text \<open>Two terminals used as examples below.\<close>

definition terminal_clear :: terminal_window where
  "terminal_clear = \<lparr>content = ''old\<newline>> clear '', insert_mark = 12, prompt = ''> '',
     input_start_idx = 6, lock_input_to_end = True, on_command = None\<rparr>"

definition terminal_idle :: terminal_window where
  "terminal_idle = \<lparr>content = ''old\<newline>> '', insert_mark = 6, prompt = ''> '',
     input_start_idx = 6, lock_input_to_end = True, on_command = None\<rparr>"


section \<open>Windows: construction, stacking order, dragging, closing\<close>

text \<open>
  The program reaches Tk's classes as attributes of the module \<^verbatim>\<open>tkinter\<close>
  (\<^verbatim>\<open>import tkinter as tk\<close>). Of the names it uses, the module defines the ones listed;
  \<^verbatim>\<open>Sizegrip\<close> is a class of \<^verbatim>\<open>tkinter.ttk\<close> only, so \<^verbatim>\<open>tk.Sizegrip\<close> raises
  \<^verbatim>\<open>AttributeError\<close>.
\<close>

datatype py_error = AttributeError

definition tkinter_names :: "string list" where
  "tkinter_names = [''Tk'', ''Toplevel'', ''Frame'', ''Label'', ''Button'', ''Text'', ''Canvas'']"

definition tk_has :: "string \<Rightarrow> bool" where
  "tk_has name = (name \<in> set tkinter_names)"

text \<open>
  The widgets of one window, the event patterns and the callbacks that \<^verbatim>\<open>__init__\<close> binds.
  Tk keeps one script per widget and event pattern, and \<^verbatim>\<open>bind\<close> without \<^verbatim>\<open>add\<close> replaces
  the script that is there. In Tk's pattern syntax \<^verbatim>\<open>Button\<close> is another name of the
  event type \<^verbatim>\<open>ButtonPress\<close>, so \<^verbatim>\<open><Button-1>\<close> and \<^verbatim>\<open><ButtonPress-1>\<close> are one pattern.
\<close>

datatype widget = Frame | Titlebar | Title_lbl | Btn_close | Content | Grip

datatype pattern = ButtonPress_1 | B1_Motion | ButtonRelease_1

datatype callback = On_drag_start | On_drag_move | On_drag_end | Lift

definition parse_sequence :: "string \<Rightarrow> pattern option" where
  "parse_sequence s =
     (if s = ''<ButtonPress-1>'' \<or> s = ''<Button-1>'' then Some ButtonPress_1
      else if s = ''<B1-Motion>'' then Some B1_Motion
      else if s = ''<ButtonRelease-1>'' then Some ButtonRelease_1
      else None)"

type_synonym bindings = "widget \<times> pattern \<Rightarrow> callback option"

definition tk_bind :: "bindings \<Rightarrow> widget \<times> string \<times> callback \<Rightarrow> bindings" where
  "tk_bind tbl b =
     (case parse_sequence (fst (snd b)) of
        None \<Rightarrow> tbl
      | Some p \<Rightarrow> tbl((fst b, p) \<mapsto> snd (snd b)))"

text \<open>
  The \<^verbatim>\<open>bind\<close> calls of \<^verbatim>\<open>Win95Window.__init__\<close> (lines 103 to 111) in their order: the
  loop over the title bar and the title label, then the three ``raise on click''
  bindings.
\<close>

definition bind_calls :: "(widget \<times> string \<times> callback) list" where
  "bind_calls =
     [(Titlebar, ''<ButtonPress-1>'', On_drag_start),
      (Titlebar, ''<B1-Motion>'', On_drag_move),
      (Titlebar, ''<ButtonRelease-1>'', On_drag_end),
      (Title_lbl, ''<ButtonPress-1>'', On_drag_start),
      (Title_lbl, ''<B1-Motion>'', On_drag_move),
      (Title_lbl, ''<ButtonRelease-1>'', On_drag_end),
      (Frame, ''<Button-1>'', Lift),
      (Titlebar, ''<Button-1>'', Lift),
      (Title_lbl, ''<Button-1>'', Lift)]"

text \<open>
  A \<^verbatim>\<open>Win95Window\<close> is a frame placed on the root window. Its record holds the geometry
  given to \<^verbatim>\<open>place\<close>, the dictionary \<^verbatim>\<open>_drag\<close> and the bindings made on its widgets.
\<close>

record win95window =
  win_x :: int
  win_y :: int
  win_w :: int
  win_h :: int
  title :: string
  drag_x :: int
  drag_y :: int
  drag_active :: bool
  bindings :: bindings

text \<open>
  The root window's \<^verbatim>\<open>Win95Window\<close> children in Tk's stacking order, lowest first (the
  canvas and the taskbar are created earlier and never raised, so they stay below).
  \<open>focus\<close> is the window that contains the widget with Tk's keyboard focus, if one does;
  \<open>terminal\<close> is \<^verbatim>\<open>RetroDesktop.terminal\<close>. Windows are named by numbers handed out in
  order of creation.
\<close>

record desktop =
  children :: "(nat \<times> win95window) list"
  focus :: "nat option"
  terminal :: "nat option"
  next_id :: nat

definition desktop_init :: desktop where
  "desktop_init = \<lparr>children = [], focus = None, terminal = None, next_id = 0\<rparr>"

definition z_order :: "desktop \<Rightarrow> nat list" where
  "z_order d = map fst (children d)"

definition winfo_exists :: "desktop \<Rightarrow> nat \<Rightarrow> bool" where
  "winfo_exists d w = (w \<in> set (z_order d))"

definition origin :: "desktop \<Rightarrow> nat \<Rightarrow> (int \<times> int) option" where
  "origin d w = map_option (\<lambda>win. (win_x win, win_y win)) (map_of (children d) w)"

text \<open>\<^verbatim>\<open>lift()\<close> moves the window above all its siblings.\<close>

definition lift :: "desktop \<Rightarrow> nat \<Rightarrow> desktop" where
  "lift d w =
     d\<lparr>children := filter (\<lambda>c. fst c \<noteq> w) (children d) @ filter (\<lambda>c. fst c = w) (children d)\<rparr>"

text \<open>A change to the fields of one window, in place in the stacking order.\<close>

definition configure :: "nat \<Rightarrow> (win95window \<Rightarrow> win95window) \<Rightarrow> desktop \<Rightarrow> desktop" where
  "configure w f d =
     d\<lparr>children := map (\<lambda>c. if fst c = w then (fst c, f (snd c)) else c) (children d)\<rparr>"

text \<open>
  \<^verbatim>\<open>Win95Window.__init__\<close>. Lines 67 to 96 create the frame, place it, set
  \<^verbatim>\<open>_drag = {"x": 0, "y": 0, "active": False}\<close> and build the title bar, the title label,
  the close button (its command is \<^verbatim>\<open>destroy_window\<close>) and the content frame; Tk puts
  the new frame on top of its siblings, and nothing is bound yet. Line 99 evaluates
  \<^verbatim>\<open>tk.Sizegrip\<close>. Only if that name exists do the \<^verbatim>\<open>bind\<close> calls run. When it does not,
  the constructor raises and the frame built so far stays on the root window: the
  result is the error, or the new window's name, together with the desktop.
\<close>

definition new_frame :: "string \<Rightarrow> int \<Rightarrow> int \<Rightarrow> int \<Rightarrow> int \<Rightarrow> win95window" where
  "new_frame t w h x y =
     \<lparr>win_x = x, win_y = y, win_w = w, win_h = h, title = t,
      drag_x = 0, drag_y = 0, drag_active = False, bindings = Map.empty\<rparr>"

definition add_child :: "desktop \<Rightarrow> win95window \<Rightarrow> desktop" where
  "add_child d win =
     d\<lparr>children := children d @ [(next_id d, win)], next_id := next_id d + 1\<rparr>"

definition win95window_init ::
  "desktop \<Rightarrow> string \<Rightarrow> int \<Rightarrow> int \<Rightarrow> int \<Rightarrow> int \<Rightarrow> (py_error + nat) \<times> desktop" where
  "win95window_init d t w h x y =
     (let self = next_id d;
          d1 = add_child d (new_frame t w h x y)
      in if \<not> tk_has ''Sizegrip'' then (Inl AttributeError, d1)
         else (Inr self,
               configure self (\<lambda>win. win\<lparr>bindings := foldl tk_bind (bindings win) bind_calls\<rparr>) d1))"

text \<open>
  \<^verbatim>\<open>destroy_window\<close>, the command of the close button: \<^verbatim>\<open>place_forget()\<close> and \<^verbatim>\<open>destroy()\<close>.
  The method makes no call about focus. \<^verbatim>\<open>destroy()\<close> destroys the frame with all its
  widgets; when the widget that has the keyboard focus is destroyed, Tk gives the focus
  to the toplevel (\<^verbatim>\<open>TkFocusDeadWindow\<close> in Tk's \<^verbatim>\<open>tkFocus.c\<close>), that is, to none of the
  windows here.
\<close>

definition destroy_window :: "desktop \<Rightarrow> nat \<Rightarrow> desktop" where
  "destroy_window d w =
     d\<lparr>children := filter (\<lambda>c. fst c \<noteq> w) (children d),
       focus := (if focus d = Some w then None else focus d)\<rparr>"

text \<open>
  The only widget of a window that takes the keyboard focus is its close button: Tk's
  traversal with the Tab key (\<^verbatim>\<open>tk_focusNext\<close> in \<^verbatim>\<open>focus.tcl\<close>) stops at every widget on
  the screen whose class has key bindings, and \<^verbatim>\<open>Button\<close> has one for the space bar,
  which runs the button's command. No statement of the program gives the focus to a
  window.
\<close>

definition tab_to_close_button :: "desktop \<Rightarrow> nat \<Rightarrow> desktop" where
  "tab_to_close_button d w = (if winfo_exists d w then d\<lparr>focus := Some w\<rparr> else d)"

text \<open>The three drag callbacks; \<open>ev\<close> is \<^verbatim>\<open>(event.x, event.y)\<close>.\<close>

definition on_drag_start :: "desktop \<Rightarrow> nat \<Rightarrow> int \<times> int \<Rightarrow> desktop" where
  "on_drag_start d w ev =
     lift (configure w (\<lambda>win. win\<lparr>drag_x := fst ev, drag_y := snd ev, drag_active := True\<rparr>) d) w"

definition on_drag_move :: "desktop \<Rightarrow> nat \<Rightarrow> int \<times> int \<Rightarrow> desktop" where
  "on_drag_move d w ev =
     configure w
       (\<lambda>win. if \<not> drag_active win then win
              else (let dx = fst ev - drag_x win;
                        dy = snd ev - drag_y win;
                        x = win_x win + dx;
                        y = win_y win + dy
                    in win\<lparr>win_x := x, win_y := y\<rparr>)) d"

definition on_drag_end :: "desktop \<Rightarrow> nat \<Rightarrow> desktop" where
  "on_drag_end d w = configure w (\<lambda>win. win\<lparr>drag_active := False\<rparr>) d"

definition run_callback :: "callback \<Rightarrow> desktop \<Rightarrow> nat \<Rightarrow> int \<times> int \<Rightarrow> desktop" where
  "run_callback f d w ev =
     (case f of
        On_drag_start \<Rightarrow> on_drag_start d w ev
      | On_drag_move \<Rightarrow> on_drag_move d w ev
      | On_drag_end \<Rightarrow> on_drag_end d w
      | Lift \<Rightarrow> lift d w)"

text \<open>
  Tk reports \<^verbatim>\<open>event.x\<close>, \<^verbatim>\<open>event.y\<close> relative to the widget that receives the event.
  With the pointer at \<open>p\<close> in the root window's coordinates and the widget at offset
  \<open>off\<close> inside its window, that is \<open>p\<close> minus the window's origin minus \<open>off\<close>.
  \<open>run_bound\<close> runs a callback on a window that exists with the event so computed.
\<close>

definition event_xy :: "win95window \<Rightarrow> int \<times> int \<Rightarrow> int \<times> int \<Rightarrow> int \<times> int" where
  "event_xy win off p = (fst p - win_x win - fst off, snd p - win_y win - snd off)"

definition run_bound :: "callback \<Rightarrow> desktop \<Rightarrow> nat \<Rightarrow> int \<times> int \<Rightarrow> int \<times> int \<Rightarrow> desktop" where
  "run_bound f d w off p =
     (case map_of (children d) w of
        None \<Rightarrow> d
      | Some win \<Rightarrow> run_callback f d w (event_xy win off p))"

text \<open>
  A pointer event goes to the widget under the pointer and runs the script that the
  window has bound to that widget for the pattern, if there is one; events on a child
  do not reach the bindings of its parent frame. Tk's own bindings for frames, labels
  and buttons neither raise nor move a window.
\<close>

definition pointer_event :: "desktop \<Rightarrow> nat \<Rightarrow> widget \<Rightarrow> int \<times> int \<Rightarrow> pattern \<Rightarrow> int \<times> int \<Rightarrow> desktop" where
  "pointer_event d w wdg off pat p =
     (case map_of (children d) w of
        None \<Rightarrow> d
      | Some win \<Rightarrow>
          (case bindings win (wdg, pat) of
             None \<Rightarrow> d
           | Some f \<Rightarrow> run_callback f d w (event_xy win off p)))"

definition press :: "desktop \<Rightarrow> nat \<Rightarrow> widget \<Rightarrow> int \<times> int \<Rightarrow> int \<times> int \<Rightarrow> desktop" where
  "press d w wdg off p = pointer_event d w wdg off ButtonPress_1 p"

definition motion :: "desktop \<Rightarrow> nat \<Rightarrow> widget \<Rightarrow> int \<times> int \<Rightarrow> int \<times> int \<Rightarrow> desktop" where
  "motion d w wdg off p = pointer_event d w wdg off B1_Motion p"

definition release :: "desktop \<Rightarrow> nat \<Rightarrow> widget \<Rightarrow> int \<times> int \<Rightarrow> int \<times> int \<Rightarrow> desktop" where
  "release d w wdg off p = pointer_event d w wdg off ButtonRelease_1 p"

text \<open>
  A drag gesture on a widget of window \<open>w\<close>: the button goes down at \<open>p0\<close>, the pointer
  moves through the points \<open>ms\<close>, the button goes up at \<open>r\<close>.
\<close>

definition drag_gesture ::
  "desktop \<Rightarrow> nat \<Rightarrow> widget \<Rightarrow> int \<times> int \<Rightarrow> int \<times> int \<Rightarrow> (int \<times> int) list \<Rightarrow> int \<times> int \<Rightarrow> desktop" where
  "drag_gesture d w wdg off p0 ms r =
     release (foldl (\<lambda>s p. motion s w wdg off p) (press d w wdg off p0) ms) w wdg off r"

text \<open>
  The same gesture with the three drag callbacks called directly, press by
  \<^verbatim>\<open>on_drag_start\<close>, whatever is bound.
\<close>

definition handlers_gesture ::
  "desktop \<Rightarrow> nat \<Rightarrow> int \<times> int \<Rightarrow> int \<times> int \<Rightarrow> (int \<times> int) list \<Rightarrow> int \<times> int \<Rightarrow> desktop" where
  "handlers_gesture d w off p0 ms r =
     run_bound On_drag_end
       (foldl (\<lambda>s p. run_bound On_drag_move s w off p) (run_bound On_drag_start d w off p0) ms)
       w off r"

definition dragged :: "win95window \<Rightarrow> int \<times> int \<Rightarrow> int \<times> int \<Rightarrow> int \<times> int \<Rightarrow> win95window" where
  "dragged win off p0 q =
     win\<lparr>drag_x := fst p0 - win_x win - fst off, drag_y := snd p0 - win_y win - snd off,
         drag_active := True,
         win_x := win_x win + (fst q - fst p0), win_y := win_y win + (snd q - snd p0)\<rparr>"

text \<open>
  \<^verbatim>\<open>RetroDesktop._about_dialog\<close> constructs a window and then packs a label into it.
  \<^verbatim>\<open>TerminalWindow.__init__\<close> starts with \<^verbatim>\<open>super().__init__\<close>, the constructor above, and
  then builds the terminal. \<^verbatim>\<open>RetroDesktop.open_terminal\<close> raises the terminal when
  \<^verbatim>\<open>self.terminal\<close> is set and exists, and otherwise constructs one and assigns it to
  \<^verbatim>\<open>self.terminal\<close>. All three are run as Tk callbacks: an exception that a constructor
  raises ends the callback, Tk reports it and goes on, and an assignment that would
  have followed does not happen.
\<close>

definition about_dialog :: "desktop \<Rightarrow> py_error option \<times> desktop" where
  "about_dialog d =
     (case win95window_init d ''About webOS 95'' 360 160 180 160 of
        (Inl e, d1) \<Rightarrow> (Some e, d1)
      | (Inr w, d1) \<Rightarrow> (None, d1))"

definition terminal_window_init ::
  "desktop \<Rightarrow> (string \<Rightarrow> string) option \<Rightarrow> (py_error + nat \<times> terminal_window) \<times> desktop" where
  "terminal_window_init d on_cmd =
     (case win95window_init d ''Terminal'' 560 320 120 120 of
        (Inl e, d1) \<Rightarrow> (Inl e, d1)
      | (Inr self, d1) \<Rightarrow> (Inr (self, terminal_body_init on_cmd), d1))"

definition construct_terminal :: "desktop \<Rightarrow> py_error option \<times> desktop" where
  "construct_terminal d =
     (case terminal_window_init d None of
        (Inl e, d1) \<Rightarrow> (Some e, d1)
      | (Inr r, d1) \<Rightarrow> (None, d1\<lparr>terminal := Some (fst r)\<rparr>))"

definition open_terminal :: "desktop \<Rightarrow> py_error option \<times> desktop" where
  "open_terminal d =
     (case terminal d of
        None \<Rightarrow> construct_terminal d
      | Some t \<Rightarrow> if winfo_exists d t then (None, lift d t) else construct_terminal d)"

text \<open>
  A desktop on which no window has a binding, and three desktops used as examples
  below: after one call of \<^verbatim>\<open>_about_dialog\<close>; after \<^verbatim>\<open>open_terminal\<close> (which the program
  calls by itself 300 ms after its start) and then \<^verbatim>\<open>_about_dialog\<close>; and the latter with
  the keyboard focus moved to the close button of the upper window.
\<close>

definition unbound :: "desktop \<Rightarrow> bool" where
  "unbound d = list_all (\<lambda>c. bindings (snd c) = Map.empty) (children d)"

definition about_open :: desktop where
  "about_open = snd (about_dialog desktop_init)"

definition two_windows :: desktop where
  "two_windows = snd (about_dialog (snd (open_terminal desktop_init)))"

definition close_button_focused :: desktop where
  "close_button_focused = tab_to_close_button two_windows 1"


section \<open>Properties of the metrics pipeline\<close>

lemma drain_events_queue: "fst (drain_events q fps) = []"
  by (induction q arbitrary: fps) simp_all

lemma drain_events_snoc_fps: "snd (drain_events (publish_fps q s) fps) = s"
  by (induction q arbitrary: fps) (simp_all add: publish_fps_def put_nowait_def)

text \<open>
  Claim C1. Whatever the queue holds, after the timing loop has published the samples
  \<open>s1\<close>, \<open>s2\<close>, \<open>s3\<close> one UI tick leaves \<open>s3\<close> as \<^verbatim>\<open>fps_value\<close> and on the label, and the
  queue empty; the next tick, with nothing published in between, finds nothing to take
  and changes nothing.
\<close>

theorem ui_tick_latest_sample:
  "schedule_ui_tick (d\<lparr>event_q := publish_fps (publish_fps (publish_fps (event_q d) s1) s2) s3\<rparr>)
     = d\<lparr>event_q := [], fps_value := s3, fps_lbl := set_fps_text s3\<rparr>
   \<and> drain_events [] s3 = ([], s3)
   \<and> schedule_ui_tick (d\<lparr>event_q := [], fps_value := s3, fps_lbl := set_fps_text s3\<rparr>)
     = d\<lparr>event_q := [], fps_value := s3, fps_lbl := set_fps_text s3\<rparr>"
  by (simp add: schedule_ui_tick_def drain_events_queue drain_events_snoc_fps)

lemma loop_body_report:
  assumes "now - last_report v \<ge> 1/4"
  shows "loop_body dt_ms now (v, q)
       = (v\<lparr>frames := 0,
            acc_time := acc_time v + real_of_int dt_ms / 1000,
            phase := phase v + real_of_int dt_ms / 1000 * 2 * pi,
            last_report := now\<rparr>,
          publish_fps q (real (frames v + 1) / (now - last_report v)))"
  using assms by (simp add: loop_body_def Let_def)

lemma loop_body_quiet:
  assumes "now - last_report v < 1/4"
  shows "loop_body dt_ms now (v, q)
       = (v\<lparr>frames := frames v + 1,
            acc_time := acc_time v + real_of_int dt_ms / 1000,
            phase := phase v + real_of_int dt_ms / 1000 * 2 * pi\<rparr>, q)"
  using assms by (simp add: loop_body_def Let_def)

lemma pygame_loop_quiet:
  assumes "\<forall>tick\<in>set ts. fst tick \<and> snd (snd tick) - last_report v < 1/4"
  shows "\<exists>ph. pygame_loop (ts @ rest) (v, q)
       = pygame_loop rest
           (v\<lparr>frames := frames v + length ts,
              acc_time := acc_time v + real_of_int (ticks_ms ts) / 1000,
              phase := ph\<rparr>, q)"
  using assms
proof (induction ts arbitrary: v)
  case Nil
  have "v\<lparr>frames := frames v, acc_time := acc_time v, phase := phase v\<rparr> = v"
    by simp
  then show ?case
    by (intro exI [of _ "phase v"]) (simp add: ticks_ms_def)
next
  case (Cons tick ts)
  obtain r dt now where tick: "tick = (r, dt, now)"
    by (cases tick)
  let ?v1 = "v\<lparr>frames := frames v + 1,
            acc_time := acc_time v + real_of_int dt / 1000,
            phase := phase v + real_of_int dt / 1000 * 2 * pi\<rparr>"
  have r: "r" and quiet: "now - last_report v < 1/4"
    using Cons.prems tick by simp_all
  have "\<forall>tick\<in>set ts. fst tick \<and> snd (snd tick) - last_report ?v1 < 1/4"
    using Cons.prems by simp
  from Cons.IH [OF this] obtain ph where
    "pygame_loop (ts @ rest) (?v1, q)
       = pygame_loop rest
           (?v1\<lparr>frames := frames ?v1 + length ts,
              acc_time := acc_time ?v1 + real_of_int (ticks_ms ts) / 1000,
              phase := ph\<rparr>, q)"
    by blast
  then show ?case
    using r tick loop_body_quiet [OF quiet, of dt q]
    by (intro exI [of _ ph]) (simp add: ticks_ms_def add_divide_distrib add.assoc)
qed

text \<open>
  Claim C7, as the code has it. Take the loop right after a report (\<open>frames = 0\<close>), let
  it run through the ticks \<open>ts\<close>, none of which reaches a quarter of a second since
  \<^verbatim>\<open>last_report\<close>, and then through a tick that does. That tick publishes the number of
  ticks of the window divided by the wall-clock time since \<^verbatim>\<open>last_report\<close>, sets \<^verbatim>\<open>frames\<close>
  to zero and \<^verbatim>\<open>last_report\<close> to the time just read. \<^verbatim>\<open>acc_time\<close> is not reset: it
  has grown by the durations of all the ticks.
\<close>

theorem report_at_window_end:
  assumes "\<forall>tick\<in>set ts. fst tick \<and> snd (snd tick) - last_report v < 1/4"
    and "now - last_report v \<ge> 1/4"
    and "frames v = 0"
  shows "snd (pygame_loop (ts @ [(True, dt_ms, now)]) (v, q))
           = publish_fps q (real (length ts + 1) / (now - last_report v))
       \<and> frames (fst (pygame_loop (ts @ [(True, dt_ms, now)]) (v, q))) = 0
       \<and> last_report (fst (pygame_loop (ts @ [(True, dt_ms, now)]) (v, q))) = now
       \<and> acc_time (fst (pygame_loop (ts @ [(True, dt_ms, now)]) (v, q)))
           = acc_time v + real_of_int (ticks_ms ts + dt_ms) / 1000"
proof -
  obtain ph where
    "pygame_loop (ts @ [(True, dt_ms, now)]) (v, q)
       = pygame_loop [(True, dt_ms, now)]
           (v\<lparr>frames := frames v + length ts,
              acc_time := acc_time v + real_of_int (ticks_ms ts) / 1000,
              phase := ph\<rparr>, q)"
    using pygame_loop_quiet [OF assms(1)] by blast
  then show ?thesis
    using assms(2, 3) by (simp add: loop_body_report add_divide_distrib)
qed

text \<open>
  Witness for C7: three ticks of 100 ms from time 0; the third ends the window and
  publishes 3 / 0.3 = 10, with \<^verbatim>\<open>acc_time\<close> at 0.3.
\<close>

theorem report_at_window_end_witness:
  "list_all (\<lambda>tick. fst tick \<and> snd (snd tick) - last_report (loop_init 0) < 1/4)
      [(True, 100, 1/10), (True, 100, 2/10)]
   \<and> 3/10 - last_report (loop_init 0) \<ge> 1/4 \<and> frames (loop_init 0) = 0
   \<and> snd (pygame_loop ([(True, 100, 1/10), (True, 100, 2/10)] @ [(True, 100, 3/10)])
             (loop_init 0, []))
        = [\<lparr>ev_type = Some ''fps'', ev_value = Some 10\<rparr>]
   \<and> acc_time (fst (pygame_loop ([(True, 100, 1/10), (True, 100, 2/10)] @ [(True, 100, 3/10)])
                       (loop_init 0, []))) = 3/10"
proof -
  have h1: "\<forall>tick\<in>set [(True, 100, 1/10), (True, 100, 2/10)].
      fst tick \<and> snd (snd tick) - last_report (loop_init 0) < 1/4"
    by (simp add: loop_init_def)
  have h2: "3/10 - last_report (loop_init 0) \<ge> 1/4"
    by (simp add: loop_init_def)
  have h3: "frames (loop_init 0) = 0"
    by (simp add: loop_init_def)
  show ?thesis
    using report_at_window_end [OF h1 h2 h3, of 100 "[]"] h1 h2 h3
    by (simp add: loop_init_def ticks_ms_def publish_fps_def put_nowait_def)
qed

text \<open>
  Counterexample to C7 as stated: one tick of 250 ms that ends the first window. The
  sample 4 is published and \<^verbatim>\<open>frames\<close> is back at zero, but the accumulated elapsed time
  \<^verbatim>\<open>acc_time\<close> is not.
\<close>

theorem acc_time_reset_counterexample:
  "snd (loop_body 250 (1/4) (loop_init 0, [])) = [\<lparr>ev_type = Some ''fps'', ev_value = Some 4\<rparr>]
   \<and> frames (fst (loop_body 250 (1/4) (loop_init 0, []))) = 0
   \<and> acc_time (fst (loop_body 250 (1/4) (loop_init 0, []))) \<noteq> 0"
  by (simp add: loop_body_def loop_init_def publish_fps_def put_nowait_def Let_def)


section \<open>Properties of the windows\<close>

subsection \<open>No window is ever bound\<close>

lemma no_sizegrip: "\<not> tk_has ''Sizegrip''"
  by (simp add: tk_has_def tkinter_names_def)

text \<open>
  Every construction of a window raises at line 99 and leaves the frame, without
  bindings, on the root window.
\<close>

lemma win95window_init_raises:
  "win95window_init d t w h x y = (Inl AttributeError, add_child d (new_frame t w h x y))"
  by (simp add: win95window_init_def no_sizegrip Let_def)

lemma about_dialog_raises:
  "about_dialog d
     = (Some AttributeError, add_child d (new_frame ''About webOS 95'' 360 160 180 160))"
  by (simp add: about_dialog_def win95window_init_raises)

lemma construct_terminal_raises:
  "construct_terminal d
     = (Some AttributeError, add_child d (new_frame ''Terminal'' 560 320 120 120))"
  by (simp add: construct_terminal_def terminal_window_init_def win95window_init_raises)

text \<open>
  \<^verbatim>\<open>self.terminal\<close> is \<^verbatim>\<open>None\<close> at the start and stays so: every call of \<^verbatim>\<open>open_terminal\<close>
  raises and adds one more frame.
\<close>

lemma open_terminal_raises:
  assumes "terminal d = None"
  shows "open_terminal d
           = (Some AttributeError, add_child d (new_frame ''Terminal'' 560 320 120 120))"
    and "terminal (snd (open_terminal d)) = None"
  using assms by (simp_all add: open_terminal_def construct_terminal_raises add_child_def)

lemma unbound_init: "unbound desktop_init"
  by (simp add: unbound_def desktop_init_def)

lemma unbound_add_child: "unbound d \<Longrightarrow> unbound (add_child d (new_frame t w h x y))"
  by (simp add: unbound_def add_child_def new_frame_def)

lemma unbound_about_dialog: "unbound d \<Longrightarrow> unbound (snd (about_dialog d))"
  by (simp add: about_dialog_raises unbound_add_child)

lemma unbound_lift: "unbound d \<Longrightarrow> unbound (lift d w)"
  by (auto simp: unbound_def lift_def list_all_iff)

lemma unbound_open_terminal: "unbound d \<Longrightarrow> unbound (snd (open_terminal d))"
  by (simp add: open_terminal_def construct_terminal_raises unbound_add_child unbound_lift
      split: option.splits)

lemma unbound_destroy_window: "unbound d \<Longrightarrow> unbound (destroy_window d w)"
  by (auto simp: unbound_def destroy_window_def list_all_iff)

lemma unbound_tab: "unbound d \<Longrightarrow> unbound (tab_to_close_button d w)"
  by (simp add: unbound_def tab_to_close_button_def)

text \<open>On such a desktop no pointer event does anything, and so no gesture does.\<close>

lemma pointer_event_unbound:
  assumes "unbound d"
  shows "pointer_event d w wdg off pat p = d"
proof (cases "map_of (children d) w")
  case None
  then show ?thesis by (simp add: pointer_event_def)
next
  case (Some win)
  then have "(w, win) \<in> set (children d)"
    by (rule map_of_SomeD)
  with assms have "bindings win = Map.empty"
    by (auto simp: unbound_def list_all_iff)
  with Some show ?thesis by (simp add: pointer_event_def)
qed

lemma motions_unbound:
  assumes "unbound d"
  shows "foldl (\<lambda>s p. motion s w wdg off p) d ms = d"
  using assms by (induction ms) (simp_all add: motion_def pointer_event_unbound)

lemma drag_gesture_unbound:
  assumes "unbound d"
  shows "drag_gesture d w wdg off p0 ms r = d"
  using assms
  by (simp add: drag_gesture_def press_def release_def pointer_event_unbound motions_unbound)

lemma two_windows_eq:
  "two_windows
     = \<lparr>children = [(0, new_frame ''Terminal'' 560 320 120 120),
                    (1, new_frame ''About webOS 95'' 360 160 180 160)],
        focus = None, terminal = None, next_id = 2\<rparr>"
  by (simp add: two_windows_def about_dialog_raises open_terminal_def construct_terminal_raises
      desktop_init_def add_child_def)

lemma unbound_two_windows: "unbound two_windows"
  by (simp add: two_windows_def unbound_about_dialog unbound_open_terminal unbound_init)

text \<open>
  Claim C3 fails on the code. The program has tried to open the terminal (window 0) and
  then the About dialog (window 1), which lies above it. A press on the title bar of
  window 0 leaves the stacking order as it was: window 0 is not on top, and it has not
  been given the focus either.
\<close>

theorem press_does_not_raise:
  "z_order two_windows = [0, 1]
   \<and> z_order (press two_windows 0 Titlebar (2, 2) (200, 130)) = [0, 1]
   \<and> last (z_order (press two_windows 0 Titlebar (2, 2) (200, 130))) \<noteq> 0
   \<and> focus (press two_windows 0 Titlebar (2, 2) (200, 130)) \<noteq> Some 0"
  by (simp add: press_def pointer_event_unbound unbound_two_windows)
    (simp add: two_windows_eq z_order_def)

text \<open>
  Claim C4 fails on the code. The About dialog stands at (180, 160); the button goes
  down on its title bar at (200, 170), the pointer moves to (205, 172) and (210, 175)
  and the button goes up there. The claim puts the window at (190, 165); it has not
  moved.
\<close>

theorem title_bar_drag_does_not_move:
  "origin about_open 0 = Some (180, 160)
   \<and> origin (drag_gesture about_open 0 Titlebar (2, 2) (200, 170) [(205, 172), (210, 175)]
               (210, 175)) 0
       = Some (180, 160)"
proof -
  have "unbound about_open"
    by (simp add: about_open_def unbound_about_dialog unbound_init)
  then have "drag_gesture about_open 0 Titlebar (2, 2) (200, 170) [(205, 172), (210, 175)]
               (210, 175) = about_open"
    by (rule drag_gesture_unbound)
  then show ?thesis
    by (simp add: about_open_def about_dialog_raises desktop_init_def add_child_def
        new_frame_def origin_def)
qed


subsection \<open>What the bind calls would give\<close>

text \<open>
  Were line 99 to pass, the nine \<^verbatim>\<open>bind\<close> calls would run on the empty table. A press on
  the frame, the title bar or the title label would then run \<^verbatim>\<open>lift\<close>; but the later
  \<^verbatim>\<open><Button-1>\<close> bindings replace \<^verbatim>\<open>on_drag_start\<close> on the title bar and on the title label,
  so that no widget and no pattern would run it, and a drag would still not start.
\<close>

lemma bindings_press:
  "foldl tk_bind Map.empty bind_calls (Frame, ButtonPress_1) = Some Lift"
  "foldl tk_bind Map.empty bind_calls (Titlebar, ButtonPress_1) = Some Lift"
  "foldl tk_bind Map.empty bind_calls (Title_lbl, ButtonPress_1) = Some Lift"
  by (simp_all add: bind_calls_def tk_bind_def parse_sequence_def)

lemma bindings_never_start: "foldl tk_bind Map.empty bind_calls k \<noteq> Some On_drag_start"
proof (cases k)
  case (Pair wdg pat)
  then show ?thesis
    by (cases wdg; cases pat) (simp_all add: bind_calls_def tk_bind_def parse_sequence_def)
qed

lemma map_of_filter_other:
  "map_of (filter (\<lambda>c. fst c \<noteq> w) cs) k = (if k = w then None else map_of cs k)"
  by (induction cs) auto

lemma map_of_filter_same:
  "map_of (filter (\<lambda>c. fst c = w) cs) k = (if k = w then map_of cs w else None)"
  by (induction cs) auto

lemma map_of_map_entry:
  "map_of (map (\<lambda>c. if fst c = w then (fst c, f (snd c)) else c) cs) k
     = (if k = w then map_option f (map_of cs w) else map_of cs k)"
  by (induction cs) auto

lemma window_lift: "map_of (children (lift d w)) k = map_of (children d) k"
  by (auto simp: lift_def map_of_filter_other map_of_filter_same map_add_def split: option.splits)

lemma window_configure:
  "map_of (children (configure w f d)) k
     = (if k = w then map_option f (map_of (children d) w) else map_of (children d) k)"
  by (simp add: configure_def map_of_map_entry)

lemma start_dragged:
  assumes "map_of (children d) w = Some win"
  shows "map_of (children (run_bound On_drag_start d w off p0)) w = Some (dragged win off p0 p0)"
  using assms
  by (simp add: run_bound_def run_callback_def on_drag_start_def window_lift window_configure
      event_xy_def dragged_def)

lemma move_dragged:
  assumes "map_of (children s) w = Some (dragged win off p0 q)"
  shows "map_of (children (run_bound On_drag_move s w off p)) w = Some (dragged win off p0 p)"
  using assms
  by (simp add: run_bound_def run_callback_def on_drag_move_def window_configure
      event_xy_def dragged_def Let_def)

lemma moves_dragged:
  assumes "map_of (children s) w = Some (dragged win off p0 q)"
  shows "map_of (children (foldl (\<lambda>s p. run_bound On_drag_move s w off p) s ms)) w
           = Some (dragged win off p0 (last (q # ms)))"
  using assms
proof (induction ms arbitrary: s q)
  case Nil
  then show ?case by simp
next
  case (Cons m ms)
  have "map_of (children (run_bound On_drag_move s w off m)) w = Some (dragged win off p0 m)"
    using Cons.prems by (rule move_dragged)
  from Cons.IH [OF this] show ?case by simp
qed

text \<open>
  The three callbacks themselves do what C4 says: called in turn, with the coordinates
  Tk computes, they leave the window displaced by the last pointer position minus the
  place of the press, however the motion is cut up.
\<close>

lemma handlers_follow_pointer:
  assumes "map_of (children d) w = Some win"
  shows "origin (handlers_gesture d w off p0 ms r) w
           = Some (win_x win + (fst (last (p0 # ms)) - fst p0),
                   win_y win + (snd (last (p0 # ms)) - snd p0))"
proof -
  let ?s = "foldl (\<lambda>s p. run_bound On_drag_move s w off p) (run_bound On_drag_start d w off p0) ms"
  have "map_of (children ?s) w = Some (dragged win off p0 (last (p0 # ms)))"
    using start_dragged [OF assms] by (rule moves_dragged)
  then show ?thesis
    by (simp add: handlers_gesture_def origin_def run_bound_def run_callback_def on_drag_end_def
        window_configure dragged_def)
qed


subsection \<open>Closing a window\<close>

text \<open>
  Claim C8, as the code has it. Closing a window takes it out of the stacking order and
  leaves the other windows in their order. The focus goes to no window: if the closed
  window had it, no window has it afterwards, and otherwise it stays where it was.
\<close>

theorem destroy_window_removes:
  "z_order (destroy_window d w) = filter (\<lambda>i. i \<noteq> w) (z_order d)
   \<and> \<not> winfo_exists (destroy_window d w) w
   \<and> focus (destroy_window d w) = (if focus d = Some w then None else focus d)"
  by (auto simp: destroy_window_def z_order_def winfo_exists_def filter_map comp_def)

lemma close_button_focused_eq:
  "z_order close_button_focused = [0, 1] \<and> focus close_button_focused = Some 1"
  by (simp add: close_button_focused_def tab_to_close_button_def winfo_exists_def z_order_def
      two_windows_eq)

text \<open>
  Witness for C8: the two frames of the example, with the keyboard focus on the close
  button of the upper one (window 1). Running its command leaves window 0 alone in the
  stacking order and no window with the focus.
\<close>

theorem destroy_window_removes_witness:
  "focus close_button_focused = Some 1
   \<and> z_order (destroy_window close_button_focused 1) = [0]
   \<and> focus (destroy_window close_button_focused 1) = None"
  using destroy_window_removes [of close_button_focused 1] close_button_focused_eq
  by simp

text \<open>
  Counterexample to C8 as stated, on the same desktop: the closed window had the focus
  and window 0 is the highest window that remains, yet window 0 does not get the
  focus.
\<close>

theorem close_focus_counterexample:
  "z_order close_button_focused = [0, 1] \<and> focus close_button_focused = Some 1
   \<and> z_order (destroy_window close_button_focused 1) = [0]
   \<and> focus (destroy_window close_button_focused 1) \<noteq> Some 0"
  using close_button_focused_eq
  by (simp add: destroy_window_def z_order_def close_button_focused_def
      tab_to_close_button_def winfo_exists_def two_windows_eq)


section \<open>Properties of the terminal\<close>

subsection \<open>Keys and the committed text\<close>

text \<open>
  What \<^verbatim>\<open>_on_key\<close> does: it never changes the text, and with the lock on (it always is)
  it leaves the cursor at or after \<^verbatim>\<open>_input_start_idx\<close>.
\<close>

lemma on_key_frame:
  "content (snd (on_key t ev)) = content t"
  "input_start_idx (snd (on_key t ev)) = input_start_idx t"
  "lock_input_to_end (snd (on_key t ev)) = lock_input_to_end t"
  by (simp_all add: on_key_def Let_def)

lemma on_key_clamps:
  assumes "lock_input_to_end t" and "input_start_idx t \<le> length (content t)"
  shows "input_start_idx t \<le> insert_mark (snd (on_key t ev))"
  using assms by (auto simp: on_key_def Let_def index_end_1c_def)


text \<open>
  Claim C6. With the cursor exactly at \<^verbatim>\<open>_input_start_idx\<close>, \<^verbatim>\<open>_on_key\<close> answers a
  BackSpace with \<^verbatim>\<open>"break"\<close>, so Tk's own binding does not run, whatever it would do:
  the whole state, and with it the text and its length, is unchanged. The callback has
  no failing branch.
\<close>

theorem backspace_at_input_start_noop:
  assumes "insert_mark t = input_start_idx t" and "keysym event = ''BackSpace''"
  shows "on_key t event = (Some ''break'', t) \<and> key_press tk_action t tm event = t"
  using assms by (simp add: key_press_def on_key_def Let_def)

text \<open>
  Witness for C6: BackSpace at the empty prompt, where Tk's own binding would delete
  the character before the cursor.
\<close>

theorem backspace_at_input_start_noop_witness:
  "insert_mark terminal_idle = input_start_idx terminal_idle
   \<and> key_press tk_control_h terminal_idle ''12:00''
        \<lparr>keysym = ''BackSpace'', key_char = [CHR 0x08]\<rparr>
       = terminal_idle
   \<and> length (content (key_press tk_control_h terminal_idle ''12:00''
        \<lparr>keysym = ''BackSpace'', key_char = [CHR 0x08]\<rparr>)) = 6"
proof -
  have h1: "insert_mark terminal_idle = input_start_idx terminal_idle"
    by (simp add: terminal_idle_def)
  have h2: "keysym \<lparr>keysym = ''BackSpace'', key_char = [CHR 0x08]\<rparr> = ''BackSpace''"
    by simp
  have h3: "length (content terminal_idle) = 6"
    by (simp add: terminal_idle_def)
  show ?thesis
    using backspace_at_input_start_noop [OF h1 h2, of tk_control_h "''12:00''"] h1 h3 by simp
qed


subsection \<open>Submitting a line\<close>

text \<open>
  Claim C5. In every state and whatever the command does, when \<^verbatim>\<open>_on_return\<close> is done
  \<^verbatim>\<open>_input_start_idx\<close> is the end of the text (\<^verbatim>\<open>end-1c\<close>), the new prompt included.
\<close>

theorem on_return_input_start_at_end:
  "input_start_idx (on_return t tm) = index_end_1c (on_return t tm)
   \<and> index_end_1c (on_return t tm) = length (content (on_return t tm))"
  by (simp add: on_return_def write_prompt_def Let_def index_end_1c_def text_insert_end_def)

lemma py_strip_surround:
  assumes "\<forall>c\<in>set a. py_isspace c" "\<forall>c\<in>set b. py_isspace c"
  shows "py_strip (a @ s @ b) = py_strip s"
proof (cases "\<forall>c\<in>set s. py_isspace c")
  case True
  with assms have "\<forall>c\<in>set (a @ s @ b). py_isspace c"
    by auto
  then have "dropWhile py_isspace (a @ s @ b) = []"
    unfolding dropWhile_eq_Nil_conv .
  moreover from True have "dropWhile py_isspace s = []"
    unfolding dropWhile_eq_Nil_conv .
  ultimately show ?thesis
    by (simp only: py_strip_def)
next
  case False
  have "dropWhile py_isspace (a @ s @ b) = dropWhile py_isspace (s @ b)"
    by (rule dropWhile_append2) (use assms(1) in simp)
  also have "\<dots> = dropWhile py_isspace s @ b"
    using False by (auto simp: dropWhile_append1)
  finally have front: "dropWhile py_isspace (a @ s @ b) = dropWhile py_isspace s @ b" .
  have "dropWhile py_isspace (rev b @ rev (dropWhile py_isspace s))
          = dropWhile py_isspace (rev (dropWhile py_isspace s))"
    by (rule dropWhile_append2) (use assms(2) in simp)
  then show ?thesis
    by (simp only: py_strip_def front rev_append)
qed

lemma text_get_input:
  "text_get (t\<lparr>content := pre @ line, input_start_idx := length pre\<rparr>) (length pre)
       (index_end_1c (t\<lparr>content := pre @ line, input_start_idx := length pre\<rparr>)) = line"
  by (simp add: text_get_def index_end_1c_def)

text \<open>
  Claim C9. Let the text be \<open>pre\<close>, up to \<^verbatim>\<open>_input_start_idx\<close>, followed by the input line
  \<open>a @ s @ b\<close>, where \<open>a\<close> and \<open>b\<close> are whitespace. Then \<^verbatim>\<open>_on_return\<close> hands
  \<open>py_strip s\<close> to \<^verbatim>\<open>handle_command\<close> (and so to \<^verbatim>\<open>on_command\<close> or to the built-in
  commands): the stripped line, the same for every choice of \<open>a\<close> and \<open>b\<close>, not the
  line as typed.
\<close>

theorem on_return_dispatches_stripped:
  assumes "\<forall>c\<in>set a. py_isspace c" and "\<forall>c\<in>set b. py_isspace c"
  shows "on_return (t\<lparr>content := pre @ a @ s @ b, input_start_idx := length pre\<rparr>) tm
       = write_prompt
           (handle_command
              (append_line (t\<lparr>content := pre @ a @ s @ b, input_start_idx := length pre\<rparr>) [])
              (py_strip s) tm)"
proof -
  have "py_strip (a @ s @ b) = py_strip s"
    using assms by (rule py_strip_surround)
  then show ?thesis
    using text_get_input [where t = t and pre = pre and line = "a @ s @ b"]
    by (simp add: on_return_def Let_def)
qed

text \<open>
  Witness for C9: the line typed is two blanks, \<^verbatim>\<open>echo hi\<close> and a blank; the command
  handed on is \<^verbatim>\<open>echo hi\<close>, which is not the line as typed.
\<close>

theorem on_return_dispatches_stripped_witness:
  "list_all py_isspace ''  '' \<and> list_all py_isspace '' ''
   \<and> on_return (terminal_idle\<lparr>content := ''> '' @ ''  '' @ ''echo hi'' @ '' '',
                                input_start_idx := length ''> ''\<rparr>) ''12:00''
     = write_prompt
         (handle_command
            (append_line (terminal_idle\<lparr>content := ''> '' @ ''  '' @ ''echo hi'' @ '' '',
                                         input_start_idx := length ''> ''\<rparr>) [])
            ''echo hi'' ''12:00'')
   \<and> ''  '' @ ''echo hi'' @ '' '' \<noteq> ''echo hi''"
proof -
  have h1: "\<forall>c\<in>set ''  ''. py_isspace c"
    by (simp add: py_isspace_def)
  have h2: "\<forall>c\<in>set '' ''. py_isspace c"
    by (simp add: py_isspace_def)
  have h3: "py_strip ''echo hi'' = ''echo hi''"
    by (simp add: py_strip_def py_isspace_def)
  show ?thesis
    using on_return_dispatches_stripped [OF h1 h2, where t = terminal_idle and pre = "''> ''"
        and s = "''echo hi''" and tm = "''12:00''"] h1 h2 h3
    by simp
qed

lemma py_split_clear: "py_split ''clear'' = [''clear'']"
  by (simp add: py_split_def py_isspace_def)

lemma py_lower_clear: "py_lower ''clear'' = ''clear''"
  by code_simp

lemma default_commands_clear:
  "default_commands t ''clear'' tm = ([], text_delete t 0 (length (content t) + 1))"
  by (simp add: default_commands_def py_split_clear py_lower_clear)

lemma handle_command_clear:
  "on_command t = None \<Longrightarrow> content (handle_command t ''clear'' tm) = []"
  by (simp add: handle_command_def default_commands_clear text_delete_def)

text \<open>
  Claim C10. With the built-in commands in use (\<^verbatim>\<open>on_command\<close> is \<^verbatim>\<open>None\<close>) and an input
  line that strips to \<^verbatim>\<open>clear\<close>, after \<^verbatim>\<open>_on_return\<close> the text is the prompt and nothing
  else: every earlier line is gone, and \<^verbatim>\<open>_input_start_idx\<close> is the end of the prompt.
\<close>

theorem clear_leaves_only_prompt:
  assumes "on_command t = None"
    and "py_strip (text_get t (input_start_idx t) (index_end_1c t)) = ''clear''"
  shows "content (on_return t tm) = prompt t
       \<and> input_start_idx (on_return t tm) = length (prompt t)"
proof -
  let ?t1 = "append_line t []"
  have "on_command ?t1 = None"
    using assms(1) by (simp add: append_line_def text_insert_end_def)
  then have empty: "content (handle_command ?t1 ''clear'' tm) = []"
    by (rule handle_command_clear)
  have "prompt (handle_command ?t1 ''clear'' tm) = prompt t"
    using assms(1)
    by (simp add: handle_command_def default_commands_clear text_delete_def append_line_def
        text_insert_end_def)
  with empty show ?thesis
    using assms(2)
    by (simp add: on_return_def Let_def write_prompt_def text_insert_end_def index_end_1c_def)
qed

text \<open>
  Witness for C10: the line \<^verbatim>\<open>old\<close>, the prompt and the input \<^verbatim>\<open>clear\<close> followed by a
  blank; after Return the text is the two characters of the prompt.
\<close>

theorem clear_leaves_only_prompt_witness:
  "on_command terminal_clear = None
   \<and> py_strip (text_get terminal_clear (input_start_idx terminal_clear)
        (index_end_1c terminal_clear)) = ''clear''
   \<and> content (on_return terminal_clear ''12:00'') = ''> ''
   \<and> input_start_idx (on_return terminal_clear ''12:00'') = 2"
proof -
  have h1: "on_command terminal_clear = None"
    by (simp add: terminal_clear_def)
  have h2: "py_strip (text_get terminal_clear (input_start_idx terminal_clear)
        (index_end_1c terminal_clear)) = ''clear''"
    by (simp add: terminal_clear_def text_get_def index_end_1c_def py_strip_def py_isspace_def)
  show ?thesis
    using clear_leaves_only_prompt [OF h1 h2, of "''12:00''"] h1 h2
    by (simp add: terminal_clear_def)
qed

end
